theory Spec2Isabelle
  imports Complex_Main "HOL-Library.Option_ord" "HOL-Library.Multiset"
begin

section \<open>AzadiDNSTester: the probe, the result sink and the engine\<close>

text \<open>
  A shallow embedding of \<^verbatim>\<open>AzadiDNSTester.py\<close>: \<^verbatim>\<open>real_time_save\<close>,
  \<^verbatim>\<open>write_header\<close>, \<^verbatim>\<open>test_single_server\<close> and the dispatch, tally and summary
  part of \<^verbatim>\<open>check_dns_servers\<close>.

  Everything the program obtains from outside itself is a field of an environment
  record \<open>env\<close>: what \<^verbatim>\<open>socket.inet_aton\<close> does with a string, whether assigning
  \<^verbatim>\<open>resolver.nameservers\<close> is accepted, what \<^verbatim>\<open>resolver.resolve\<close> returns or raises,
  the readings of \<^verbatim>\<open>time.time()\<close>, whether appending to \<^verbatim>\<open>working_dns.txt\<close> succeeds,
  and the rendering of a float by the format \<^verbatim>\<open>.0f\<close>. The general theorems hold for every
  environment. Python floats are modelled by \<^typ>\<open>real\<close>.

  What the program changes outside itself is a field of the record \<open>world\<close>: the lines of
  \<^verbatim>\<open>working_dns.txt\<close>, the lines printed by the sink, and the log of the queries handed to
  \<^verbatim>\<open>resolver.resolve\<close>.
\<close>

subsection \<open>Exceptions\<close>

text \<open>
  The subclasses of \<^verbatim>\<open>Exception\<close> that the program distinguishes or can meet.
  \<open>SocketError\<close> is \<^verbatim>\<open>socket.error\<close> (an alias of \<^verbatim>\<open>OSError\<close>); \<open>NXDOMAIN\<close>,
  \<open>Timeout\<close> and \<open>NoAnswer\<close> are the three classes of \<^verbatim>\<open>dns.resolver\<close> the probe names;
  \<open>DNSException\<close> is any other subclass of \<^verbatim>\<open>dns.exception.DNSException\<close>;
  \<open>OtherException\<close> is any other subclass of \<^verbatim>\<open>Exception\<close>.
\<close>

datatype exn =
    SocketError
  | NXDOMAIN
  | Timeout
  | NoAnswer
  | DNSException
  | ValueError
  | UnboundLocalError
  | IndexError
  | StopIteration
  | OtherException

subsection \<open>Environment and world\<close>

record env =
  inet_aton :: "string \<Rightarrow> exn option"
    \<comment> \<open>\<^verbatim>\<open>socket.inet_aton(s)\<close>: \<open>None\<close> when it returns, \<open>Some x\<close> when it raises \<open>x\<close>\<close>
  set_nameservers :: "string list \<Rightarrow> exn option"
    \<comment> \<open>the assignment \<^verbatim>\<open>resolver.nameservers = ns\<close>, a property setter of the library\<close>
  resolve :: "string \<Rightarrow> string \<Rightarrow> int \<Rightarrow> exn + string list"
    \<comment> \<open>\<^verbatim>\<open>resolver.resolve(domain, 'A')\<close> for a name server, a domain and a timeout:
        the raised exception, or \<^verbatim>\<open>str(answer)\<close> of every answer, in the order returned\<close>
  clock :: "nat \<Rightarrow> real"
    \<comment> \<open>the \<open>k\<close>-th reading of \<^verbatim>\<open>time.time()\<close> within one call, counted from 0\<close>
  file_append :: "string \<Rightarrow> exn option"
    \<comment> \<open>opening \<^verbatim>\<open>working_dns.txt\<close> for append and writing one line\<close>
  file_create :: "exn option"
    \<comment> \<open>opening \<^verbatim>\<open>working_dns.txt\<close> with mode \<^verbatim>\<open>'w'\<close>, which empties the file when it
        succeeds\<close>
  header_write :: "nat \<Rightarrow> exn option"
    \<comment> \<open>the \<open>k\<close>-th \<^verbatim>\<open>f.write\<close> of the header, counted from 0\<close>
  fmt0 :: "real \<Rightarrow> string"
    \<comment> \<open>the format \<^verbatim>\<open>{x:.0f}\<close>\<close>
  str_exn :: "exn \<Rightarrow> string"
    \<comment> \<open>\<^verbatim>\<open>str(e)\<close> of a caught exception\<close>

record world =
  store :: "string list"
    \<comment> \<open>the lines of \<^verbatim>\<open>working_dns.txt\<close>\<close>
  console :: "string list"
    \<comment> \<open>the lines printed by \<^verbatim>\<open>write_header\<close> and \<^verbatim>\<open>real_time_save\<close>\<close>
  queries :: "(string \<times> string \<times> int) list"
    \<comment> \<open>the calls of \<^verbatim>\<open>resolver.resolve\<close>: name server, domain, timeout\<close>

subsection \<open>The result sink\<close>

text \<open>
  \<^verbatim>\<open>write_header\<close> opens the file with mode \<^verbatim>\<open>'w'\<close> and writes four lines; any exception is
  caught and printed. When the file cannot be opened it stays as it was. Once it is open
  it is empty, and a write that fails leaves the lines written before it. The time stamp
  is a parameter.
\<close>

fun write_lines ::
  "(nat \<Rightarrow> exn option) \<Rightarrow> nat \<Rightarrow> string list \<Rightarrow> string list \<Rightarrow> exn option \<times> string list" where
  "write_lines fails k [] written = (None, written)"
| "write_lines fails k (line # lines) written =
     (case fails k of
        Some ex \<Rightarrow> (Some ex, written)
      | None \<Rightarrow> write_lines fails (Suc k) lines (written @ [line]))"

definition write_header :: "env \<Rightarrow> string \<Rightarrow> string \<Rightarrow> bool \<Rightarrow> world \<Rightarrow> world" where
  "write_header e timestamp test_domain include_firewall w =
     (let filter_mode =
            (if include_firewall then ''including all responses''
             else ''filtering firewall responses'')
      in case file_create e of
           Some ex \<Rightarrow>
             w\<lparr>console := console w @ [''header write error: '' @ str_exn e ex]\<rparr>
         | None \<Rightarrow>
             (case write_lines (header_write e) 0
                     [''# working dns servers - tested: '' @ timestamp,
                      ''# test domain: '' @ test_domain,
                      ''# mode: '' @ filter_mode
                         @ '' - 10.10.34.34, 10.10.34.35, 10.10.34.36'',
                      ''# format: ip (response_time_ms) [firewall: fw_ip]''] [] of
                (None, written) \<Rightarrow>
                  w\<lparr>store := written,
                    console := console w @ [''header written to working_dns.txt'']\<rparr>
              | (Some ex, written) \<Rightarrow>
                  w\<lparr>store := written,
                    console := console w @ [''header write error: '' @ str_exn e ex]\<rparr>))"

text \<open>
  \<^verbatim>\<open>real_time_save\<close>: under the lock, append one line; any exception is caught and printed,
  and the function returns normally either way.
\<close>

definition real_time_save :: "env \<Rightarrow> string \<Rightarrow> world \<Rightarrow> world" where
  "real_time_save e server_info w =
     (case file_append e server_info of
        None \<Rightarrow> w\<lparr>store := store w @ [server_info]\<rparr>
      | Some ex \<Rightarrow>
          w\<lparr>console := console w @ [''real-time save error: '' @ str_exn e ex]\<rparr>)"

subsection \<open>The probe\<close>

text \<open>
  The value \<^verbatim>\<open>test_single_server\<close> returns: the flag \<^verbatim>\<open>success\<close>, the pair of the server
  and its response time in milliseconds (\<^verbatim>\<open>None\<close> for an invalid address), and the message.
\<close>

type_synonym result = "bool \<times> (string \<times> real option) \<times> string"

definition firewall_ips :: "string set" where
  "firewall_ips = {''10.10.34.34'', ''10.10.34.35'', ''10.10.34.36''}"

text \<open>
  \<^verbatim>\<open>firewall_found = any(ip in firewall_ips for ip in returned_ips)\<close> and
  \<^verbatim>\<open>first_fw = next(ip for ip in returned_ips if ip in firewall_ips)\<close>; \<^verbatim>\<open>next\<close> raises
  \<^verbatim>\<open>StopIteration\<close> when the generator is empty.
\<close>

definition firewall_found :: "string list \<Rightarrow> bool" where
  "firewall_found returned_ips = list_ex (\<lambda>ip. ip \<in> firewall_ips) returned_ips"

definition next_firewall :: "string list \<Rightarrow> exn + string" where
  "next_firewall returned_ips =
     (case find (\<lambda>ip. ip \<in> firewall_ips) returned_ips of
        None \<Rightarrow> Inl StopIteration
      | Some ip \<Rightarrow> Inr ip)"

text \<open>
  Reading a local name: a name that is assigned somewhere in the function is local to it,
  and reading it before any assignment ran raises \<^verbatim>\<open>UnboundLocalError\<close>.
\<close>

definition read_local :: "'a option \<Rightarrow> exn + 'a" where
  "read_local binding = (case binding of None \<Rightarrow> Inl UnboundLocalError | Some v \<Rightarrow> Inr v)"

text \<open>
  The \<^verbatim>\<open>except\<close> clauses of the probe, in their order. Each takes one more reading of the
  clock (the \<open>k\<close>-th of the call) and returns a failure.
\<close>

definition handlers :: "env \<Rightarrow> string \<Rightarrow> real \<Rightarrow> nat \<Rightarrow> exn \<Rightarrow> result" where
  "handlers e server start_time k ex =
     (let response_time = (clock e k - start_time) * 1000 in
      if ex = NXDOMAIN then (False, (server, Some response_time), server @ '' nxdomain'')
      else if ex = Timeout then (False, (server, Some response_time), server @ '' timeout'')
      else if ex = NoAnswer then (False, (server, Some response_time), server @ '' no answer'')
      else if ex = DNSException then (False, (server, Some response_time), server @ '' dns error'')
      else (False, (server, Some response_time), server @ '' error''))"

text \<open>
  The body of the \<^verbatim>\<open>try\<close> after \<^verbatim>\<open>resolver.resolve\<close> has returned its answers. The name
  \<^verbatim>\<open>first_fw\<close> is bound only inside the branch \<^verbatim>\<open>if firewall_found\<close>; the line that builds
  \<^verbatim>\<open>server_info\<close> for a plain success reads it all the same.
\<close>

definition probe_body ::
  "env \<Rightarrow> string \<Rightarrow> bool \<Rightarrow> real \<Rightarrow> string list \<Rightarrow> world \<Rightarrow> (exn + result) \<times> world" where
  "probe_body e server include_firewall start_time answers w =
     (let response_time = (clock e 1 - start_time) * 1000;
          returned_ips = answers
      in case answers of
           [] \<Rightarrow> (Inl IndexError, w)
         | first_ip # _ \<Rightarrow>
             if firewall_found returned_ips then
               (case next_firewall returned_ips of
                  Inl ex \<Rightarrow> (Inl ex, w)
                | Inr first_fw \<Rightarrow>
                    if include_firewall then
                      (let server_info =
                             server @ '' (firewall:'' @ first_fw @ '') (''
                               @ fmt0 e response_time @ ''ms)''
                       in (Inr (True, (server, Some response_time),
                                server @ '' firewall blocked '' @ fmt0 e response_time
                                  @ ''ms ('' @ first_fw @ '')''),
                           real_time_save e server_info w))
                    else
                      (Inr (False, (server, Some response_time),
                            server @ '' firewall blocked ('' @ first_fw @ '')''), w))
             else
               (case read_local (None :: string option) of
                  Inl ex \<Rightarrow> (Inl ex, w)
                | Inr first_fw \<Rightarrow>
                    (let server_info =
                           server @ '' ('' @ first_fw @ '') ('' @ fmt0 e response_time @ ''ms)''
                     in (Inr (True, (server, Some response_time),
                              server @ '' ok '' @ fmt0 e response_time
                                @ ''ms ('' @ first_ip @ '')''),
                         real_time_save e server_info w))))"

text \<open>
  \<^verbatim>\<open>test_single_server\<close>. The result is \<open>Inl x\<close> when the exception \<open>x\<close> leaves the function
  and \<open>Inr r\<close> when it returns \<open>r\<close>. Only \<^verbatim>\<open>socket.error\<close> is caught around
  \<^verbatim>\<open>socket.inet_aton\<close>; the statements that configure the resolver stand outside both
  \<^verbatim>\<open>try\<close> blocks; the second \<^verbatim>\<open>try\<close> ends in \<^verbatim>\<open>except Exception\<close>.
\<close>

definition test_single_server ::
  "env \<Rightarrow> string \<Rightarrow> string \<Rightarrow> int \<Rightarrow> bool \<Rightarrow> world \<Rightarrow> (exn + result) \<times> world" where
  "test_single_server e server domain timeout include_firewall w =
     (case inet_aton e server of
        Some ex \<Rightarrow>
          if ex = SocketError
          then (Inr (False, (server, None), server @ '' invalid ip''), w)
          else (Inl ex, w)
      | None \<Rightarrow>
          (let start_time = clock e 0 in
           case set_nameservers e [server] of
             Some ex \<Rightarrow> (Inl ex, w)
           | None \<Rightarrow>
               (let w1 = w\<lparr>queries := queries w @ [(server, domain, timeout)]\<rparr> in
                case resolve e server domain timeout of
                  Inl ex \<Rightarrow> (Inr (handlers e server start_time 1 ex), w1)
                | Inr answers \<Rightarrow>
                    (case probe_body e server include_firewall start_time answers w1 of
                       (Inl ex, w2) \<Rightarrow> (Inr (handlers e server start_time 2 ex), w2)
                     | (Inr r, w2) \<Rightarrow> (Inr r, w2)))))"

subsection \<open>The engine\<close>

text \<open>
  \<^verbatim>\<open>check_dns_servers\<close> from the call of \<^verbatim>\<open>write_header\<close> on; the list of servers and
  the answers of the prompts are parameters. One task is submitted per element of
  \<^verbatim>\<open>servers\<close>: a future is the index of the task with the server it was submitted for, as
  in \<^verbatim>\<open>future_to_server\<close>. The task with index \<open>i\<close> runs in the environment \<open>envs i\<close>. The
  number of workers bounds how many tasks are in flight and has no part in what is
  computed.

  The program does not determine in which order the tasks take effect, nor in which order
  the loop receives their futures; both are parameters.
  \<^item> Each append to the file is atomic under \<^verbatim>\<open>file_lock\<close>. The model applies the effects
    of the tasks on the world one task after the other, ordered by the key \<open>effect i\<close>.
  \<^item> \<^verbatim>\<open>as_completed\<close> yields every future exactly once: first those that are already
    finished when it is called, in the iteration order of a set, then the others as they
    finish. The model orders the futures by the key \<open>yielded i\<close>, which can describe any
    order.
\<close>

type_synonym future = "nat \<times> string"

definition executor_order :: "(nat \<Rightarrow> nat) \<Rightarrow> future list \<Rightarrow> future list" where
  "executor_order effect future_to_server = sort_key (\<lambda>(i, server). effect i) future_to_server"

definition as_completed :: "(nat \<Rightarrow> nat) \<Rightarrow> future list \<Rightarrow> future list" where
  "as_completed yielded future_to_server = sort_key (\<lambda>(i, server). yielded i) future_to_server"

fun run_futures ::
  "(nat \<Rightarrow> env) \<Rightarrow> string \<Rightarrow> int \<Rightarrow> bool \<Rightarrow> future list \<Rightarrow> world
     \<Rightarrow> (future \<times> (exn + result)) list \<times> world" where
  "run_futures envs domain timeout include_firewall [] w = ([], w)"
| "run_futures envs domain timeout include_firewall ((i, server) # futures) w =
     (case test_single_server (envs i) server domain timeout include_firewall w of
        (outcome, w1) \<Rightarrow>
          (case run_futures envs domain timeout include_firewall futures w1 of
             (outcomes, w2) \<Rightarrow> (((i, server), outcome) # outcomes, w2)))"

text \<open>
  \<^verbatim>\<open>future.result()\<close>: what the task stored in its future, the returned tuple or the raised
  exception. Every future the loop receives has run, so the second case does not arise.
\<close>

definition future_result :: "(future \<times> (exn + result)) list \<Rightarrow> future \<Rightarrow> exn + result" where
  "future_result finished f =
     (case map_of finished f of Some outcome \<Rightarrow> outcome | None \<Rightarrow> Inl OtherException)"

text \<open>
  One turn of the loop over the completed futures, on the pair of the lists \<^verbatim>\<open>working\<close>
  and \<^verbatim>\<open>failed\<close>: \<^verbatim>\<open>future.result()\<close> either returns the tuple of the probe or raises what
  the probe raised, which \<^verbatim>\<open>except Exception\<close> turns into a failure of that server.
\<close>

fun tally ::
  "string \<times> (exn + result) \<Rightarrow> (string \<times> real option) list \<times> string list
     \<Rightarrow> (string \<times> real option) list \<times> string list" where
  "tally (server, Inr (success, result, message)) (working, failed) =
     (if success then (working @ [result], failed) else (working, failed @ [fst result]))"
| "tally (server, Inl ex) (working, failed) = (working, failed @ [server])"

record summary =
  total_tested :: nat
  working :: "(string \<times> real option) list"
  failed :: "string list"
  success_rate :: real
  top5 :: "(string \<times> real option) list"
    \<comment> \<open>the entries printed under \<^verbatim>\<open>top 5 fastest\<close>\<close>
  final :: world

text \<open>
  \<^verbatim>\<open>sorted(working, key=lambda x: x[1])\<close> is a stable sort, as \<^const>\<open>sort_key\<close> is. The
  order of \<^typ>\<open>real option\<close> puts \<open>None\<close> first; no entry of \<^verbatim>\<open>working\<close> has the latency
  \<open>None\<close>.
\<close>

definition sorted_working :: "(string \<times> real option) list \<Rightarrow> (string \<times> real option) list" where
  "sorted_working ws = sort_key snd ws"

definition check_dns_servers ::
  "env \<Rightarrow> (nat \<Rightarrow> env) \<Rightarrow> (nat \<Rightarrow> nat) \<Rightarrow> (nat \<Rightarrow> nat) \<Rightarrow> string \<Rightarrow> string list \<Rightarrow> string \<Rightarrow> int
     \<Rightarrow> bool \<Rightarrow> world \<Rightarrow> summary option" where
  "check_dns_servers main_env envs effect yielded timestamp servers domain timeout
       include_firewall w =
     (if servers = [] then None
      else
        (let w_header = write_header main_env timestamp domain include_firewall w;
             future_to_server = enumerate 0 servers;
             ran = run_futures envs domain timeout include_firewall
                     (executor_order effect future_to_server) w_header;
             lists = fold tally
                       (map (\<lambda>f. (snd f, future_result (fst ran) f))
                          (as_completed yielded future_to_server))
                       ([], [])
         in Some \<lparr>total_tested = length servers,
                  working = fst lists,
                  failed = snd lists,
                  success_rate = real (length (fst lists)) / real (length servers) * 100,
                  top5 = (if fst lists \<noteq> [] then take 5 (sorted_working (fst lists)) else []),
                  final = snd ran\<rparr>))"

subsection \<open>A concrete environment\<close>

text \<open>
  The library calls, for the closed examples below. \<open>inet_aton_libc\<close> follows the
  numbers-and-dots notation of \<^verbatim>\<open>inet(3)\<close>, which \<^verbatim>\<open>socket.inet_aton\<close> hands its argument
  to: one to four parts separated by dots, each a number in C notation (decimal, octal
  with a leading \<^verbatim>\<open>0\<close>, hexadecimal with a leading \<^verbatim>\<open>0x\<close>), every part but the last at most
  255 and the last part filling the remaining bytes; the C function stops reading at the
  first white-space character and ignores what follows it. A string with an embedded NUL
  never reaches the C function: the argument conversion of \<^verbatim>\<open>socket.inet_aton\<close> raises \<^verbatim>\<open>ValueError\<close>.
  \<open>dns_is_address\<close> is the check of a name server by the setter of
  \<^verbatim>\<open>resolver.nameservers\<close> in dnspython, as far as strings of digits and dots go: exactly
  four decimal parts, none with a leading zero, each at most 255; anything else makes the
  setter raise \<^verbatim>\<open>ValueError\<close>.
\<close>

fun split_dots :: "string \<Rightarrow> string list" where
  "split_dots [] = [[]]"
| "split_dots (c # cs) =
     (if c = CHR ''.'' then [] # split_dots cs
      else (case split_dots cs of [] \<Rightarrow> [[c]] | p # ps \<Rightarrow> (c # p) # ps))"

definition digit_val :: "char \<Rightarrow> nat" where
  "digit_val c =
     (if c \<in> set ''0123456789'' then of_char c - 48
      else if c \<in> set ''abcdef'' then of_char c - 87
      else of_char c - 55)"

definition number_in :: "nat \<Rightarrow> string \<Rightarrow> nat" where
  "number_in base ds = foldl (\<lambda>a c. a * base + digit_val c) 0 ds"

definition c_number :: "string \<Rightarrow> nat option" where
  "c_number p =
     (if p = [] then None
      else if take 2 p = ''0x'' \<or> take 2 p = ''0X'' then
        (if drop 2 p \<noteq> [] \<and> list_all (\<lambda>c. c \<in> set ''0123456789abcdefABCDEF'') (drop 2 p)
         then Some (number_in 16 (drop 2 p)) else None)
      else if hd p = CHR ''0'' then
        (if list_all (\<lambda>c. c \<in> set ''01234567'') p then Some (number_in 8 p) else None)
      else if list_all (\<lambda>c. c \<in> set ''0123456789'') p then Some (number_in 10 p)
      else None)"

definition inet_aton_libc :: "string \<Rightarrow> bool" where
  "inet_aton_libc s =
     (let parts = map c_number
                    (split_dots (takeWhile (\<lambda>c. c \<notin> set [CHR '' '', CHR 0x09, CHR 0x0A,
                                                         CHR 0x0B, CHR 0x0C, CHR 0x0D]) s));
          n = length parts in
      n \<le> 4 \<and> list_all (\<lambda>v. v \<noteq> None) parts
        \<and> list_all (\<lambda>v. the v \<le> 255) (butlast parts)
        \<and> the (last parts) < 256 ^ (5 - n))"

text \<open>
  A well-formed dotted quad, in the words of the specification: four parts separated by
  dots, each a non-empty run of decimal digits with a value of at most 255.
\<close>

definition dotted_quad :: "string \<Rightarrow> bool" where
  "dotted_quad s =
     (let parts = split_dots s in
      length parts = 4
        \<and> list_all (\<lambda>p. p \<noteq> [] \<and> list_all (\<lambda>c. c \<in> set ''0123456789'') p
                         \<and> number_in 10 p \<le> 255) parts)"

definition dns_is_address :: "string \<Rightarrow> bool" where
  "dns_is_address s =
     (dotted_quad s \<and> list_all (\<lambda>p. \<not> (length p > 1 \<and> hd p = CHR ''0'')) (split_dots s))"

text \<open>
  The format \<^verbatim>\<open>.0f\<close>: the nearest integer, a tie going to the even one, in decimal, with
  the sign of the value (a negative value that rounds to zero is \<^verbatim>\<open>-0\<close>).
\<close>

fun decimal :: "nat \<Rightarrow> string" where
  "decimal n =
     (if n < 10 then [''0123456789'' ! n]
      else decimal (n div 10) @ [''0123456789'' ! (n mod 10)])"

definition round_half_even :: "real \<Rightarrow> int" where
  "round_half_even x =
     (let f = \<lfloor>x\<rfloor>; d = x - of_int f in
      if d < 1 / 2 then f else if 1 / 2 < d then f + 1 else if even f then f else f + 1)"

definition format_0f :: "real \<Rightarrow> string" where
  "format_0f x =
     (let r = round_half_even x in
      if x < 0 then ''-'' @ decimal (nat (- r)) else decimal (nat r))"

definition lib_env :: "(exn + string list) \<Rightarrow> (nat \<Rightarrow> real) \<Rightarrow> exn option \<Rightarrow> env" where
  "lib_env response readings append_result =
     \<lparr>inet_aton =
        (\<lambda>s. if CHR 0x00 \<in> set s then Some ValueError
             else if inet_aton_libc s then None else Some SocketError),
      set_nameservers = (\<lambda>ns. if list_all dns_is_address ns then None else Some ValueError),
      resolve = (\<lambda>nameserver domain timeout. response),
      clock = readings,
      file_append = (\<lambda>line. append_result),
      file_create = None,
      header_write = (\<lambda>k. None),
      fmt0 = format_0f,
      str_exn = (\<lambda>ex. ''[Errno 28] No space left on device'')\<rparr>"

text \<open>The world before a run: an empty file, nothing printed, no query sent.\<close>

definition w0 :: world where
  "w0 = \<lparr>store = [], console = [], queries = []\<rparr>"

text \<open>
  A completed future carries its own server: when the probe returned, the server of the
  returned tuple is the one the future was submitted for.
\<close>

definition own_server :: "string \<times> (exn + result) \<Rightarrow> bool" where
  "own_server f = (case snd f of Inl ex \<Rightarrow> True | Inr r \<Rightarrow> fst (fst (snd r)) = fst f)"

text \<open>
  For the statements about the engine. \<open>probe_outcome\<close> is what the task of a future
  stores in it; the result of the probe does not depend on the world it runs in.
  \<open>accepted\<close> gives the entry of a positive outcome, the pair of the server and its
  latency; a failure and a raised exception have none.
\<close>

definition probe_outcome :: "(nat \<Rightarrow> env) \<Rightarrow> string \<Rightarrow> int \<Rightarrow> bool \<Rightarrow> future \<Rightarrow> exn + result" where
  "probe_outcome envs domain timeout include_firewall f =
     fst (test_single_server (envs (fst f)) (snd f) domain timeout include_firewall w0)"

fun accepted :: "exn + result \<Rightarrow> (string \<times> real option) option" where
  "accepted (Inr (success, result, message)) = (if success then Some result else None)"
| "accepted (Inl ex) = None"

section \<open>Properties\<close>

subsection \<open>The concrete environment, evaluated\<close>

lemma lib_env_simps:
  "inet_aton (lib_env r c a) s =
     (if CHR 0x00 \<in> set s then Some ValueError
      else if inet_aton_libc s then None else Some SocketError)"
  "set_nameservers (lib_env r c a) ns = (if list_all dns_is_address ns then None else Some ValueError)"
  "resolve (lib_env r c a) n d t = r"
  "clock (lib_env r c a) = c"
  "file_append (lib_env r c a) l = a"
  "file_create (lib_env r c a) = None"
  "header_write (lib_env r c a) k = None"
  "fmt0 (lib_env r c a) = format_0f"
  "str_exn (lib_env r c a) ex = ''[Errno 28] No space left on device''"
  by (simp_all add: lib_env_def)

lemma accepts_1111: "inet_aton_libc ''1.1.1.1''" "dns_is_address ''1.1.1.1''" "dotted_quad ''1.1.1.1''"
  by (simp_all add: inet_aton_libc_def dns_is_address_def dotted_quad_def c_number_def number_in_def digit_val_def Let_def)

lemma accepts_8888: "inet_aton_libc ''8.8.8.8''" "dns_is_address ''8.8.8.8''" "dotted_quad ''8.8.8.8''"
  by (simp_all add: inet_aton_libc_def dns_is_address_def dotted_quad_def c_number_def number_in_def digit_val_def Let_def)

lemma fmt25: "format_0f 25 = ''25''"
  by (simp add: format_0f_def round_half_even_def Let_def)

lemma fmt50: "format_0f 50 = ''50''"
  by (simp add: format_0f_def round_half_even_def Let_def)

subsection \<open>Firewall classification\<close>

lemma firewall_found_iff: "firewall_found ips \<longleftrightarrow> set ips \<inter> firewall_ips \<noteq> {}"
  by (auto simp: firewall_found_def list_ex_iff)

lemma find_append_first:
  "\<forall>y\<in>set pre. \<not> P y \<Longrightarrow> P s \<Longrightarrow> find P (pre @ s # post) = Some s"
  by (induction pre) auto

lemma next_firewall_first:
  assumes "set ips \<inter> firewall_ips \<noteq> {}"
  shows "\<exists>pre s post. ips = pre @ s # post \<and> s \<in> firewall_ips
           \<and> set pre \<inter> firewall_ips = {} \<and> next_firewall ips = Inr s"
proof -
  from assms have "\<exists>x\<in>set ips. x \<in> firewall_ips" by auto
  then obtain pre s post where sp: "ips = pre @ s # post" "s \<in> firewall_ips"
      "\<forall>y\<in>set pre. y \<notin> firewall_ips"
    using split_list_first_prop[of ips "\<lambda>x. x \<in> firewall_ips"] by blast
  have "find (\<lambda>ip. ip \<in> firewall_ips) ips = Some s"
    using sp find_append_first[of pre "\<lambda>ip. ip \<in> firewall_ips" s post] by simp
  then have "next_firewall ips = Inr s" by (simp add: next_firewall_def)
  moreover have "set pre \<inter> firewall_ips = {}" using sp(3) by auto
  ultimately show ?thesis using sp(1,2) by blast
qed

lemma next_firewall_none:
  assumes "set ips \<inter> firewall_ips = {}"
  shows "next_firewall ips = Inl StopIteration"
proof -
  have "find (\<lambda>ip. ip \<in> firewall_ips) ips = None"
    using assms by (auto simp: find_None_iff)
  then show ?thesis by (simp add: next_firewall_def)
qed

text \<open>
  C8. The classification is a function of the list of returned addresses alone (it reads
  neither the environment nor the world, so it gives the same result whenever it is
  applied to the same answers): a match is found exactly when the answers meet the three
  sentinel addresses; then the address reported is the first answer, in the order the
  resolver returned them, that is a sentinel; otherwise there is no match.
\<close>

theorem firewall_classification:
  "(firewall_found ips \<longleftrightarrow> set ips \<inter> firewall_ips \<noteq> {}) \<and>
   (set ips \<inter> firewall_ips = {} \<longrightarrow> next_firewall ips = Inl StopIteration) \<and>
   (set ips \<inter> firewall_ips \<noteq> {} \<longrightarrow>
      (\<exists>pre s post. ips = pre @ s # post \<and> s \<in> firewall_ips
         \<and> set pre \<inter> firewall_ips = {} \<and> next_firewall ips = Inr s))"
  using firewall_found_iff next_firewall_none next_firewall_first by blast

theorem firewall_classification_witness:
  "firewall_found [''93.184.216.34'', ''10.10.34.35'', ''10.10.34.34'']
   \<and> next_firewall [''93.184.216.34'', ''10.10.34.35'', ''10.10.34.34''] = Inr ''10.10.34.35''
   \<and> \<not> firewall_found [''93.184.216.34'', ''93.184.216.35'']
   \<and> next_firewall [''93.184.216.34'', ''93.184.216.35''] = Inl StopIteration"
  using firewall_classification [of "[''93.184.216.34'', ''10.10.34.35'', ''10.10.34.34'']"]
    firewall_classification [of "[''93.184.216.34'', ''93.184.216.35'']"]
  by (simp add: firewall_found_def next_firewall_def firewall_ips_def)

subsection \<open>The paths through the probe\<close>

lemma probe_body_firewall:
  assumes "next_firewall answers = Inr fw" "firewall_found answers"
  shows "probe_body e server include_firewall start_time answers w =
     (if include_firewall then
        (Inr (True, (server, Some ((clock e 1 - start_time) * 1000)),
              server @ '' firewall blocked '' @ fmt0 e ((clock e 1 - start_time) * 1000)
                @ ''ms ('' @ fw @ '')''),
         real_time_save e (server @ '' (firewall:'' @ fw @ '') (''
                             @ fmt0 e ((clock e 1 - start_time) * 1000) @ ''ms)'') w)
      else
        (Inr (False, (server, Some ((clock e 1 - start_time) * 1000)),
              server @ '' firewall blocked ('' @ fw @ '')''), w))"
proof -
  from assms(2) have "answers \<noteq> []" by (auto simp: firewall_found_def)
  then obtain a as where "answers = a # as" by (cases answers) auto
  then show ?thesis using assms by (simp add: probe_body_def Let_def)
qed

lemma probe_body_plain:
  assumes "\<not> firewall_found answers"
  shows "probe_body e server include_firewall start_time answers w =
     (if answers = [] then (Inl IndexError, w) else (Inl UnboundLocalError, w))"
  using assms by (cases answers) (simp_all add: probe_body_def Let_def read_local_def)

lemma test_single_server_invalid:
  "inet_aton e server = Some SocketError \<Longrightarrow>
   test_single_server e server domain timeout include_firewall w =
     (Inr (False, (server, None), server @ '' invalid ip''), w)"
  by (simp add: test_single_server_def)

lemma test_single_server_raises:
  "inet_aton e server = Some ex \<Longrightarrow> ex \<noteq> SocketError \<Longrightarrow>
   test_single_server e server domain timeout include_firewall w = (Inl ex, w)"
  "inet_aton e server = None \<Longrightarrow> set_nameservers e [server] = Some ex \<Longrightarrow>
   test_single_server e server domain timeout include_firewall w = (Inl ex, w)"
  by (simp_all add: test_single_server_def Let_def)

lemma test_single_server_query_fails:
  "inet_aton e server = None \<Longrightarrow> set_nameservers e [server] = None \<Longrightarrow>
   resolve e server domain timeout = Inl ex \<Longrightarrow>
   test_single_server e server domain timeout include_firewall w =
     (Inr (handlers e server (clock e 0) 1 ex),
      w\<lparr>queries := queries w @ [(server, domain, timeout)]\<rparr>)"
  by (simp add: test_single_server_def Let_def)

lemma test_single_server_firewall:
  assumes "inet_aton e server = None" "set_nameservers e [server] = None"
    "resolve e server domain timeout = Inr answers" "next_firewall answers = Inr fw"
    "firewall_found answers"
  shows "test_single_server e server domain timeout include_firewall w =
     (if include_firewall then
        (Inr (True, (server, Some ((clock e 1 - clock e 0) * 1000)),
              server @ '' firewall blocked '' @ fmt0 e ((clock e 1 - clock e 0) * 1000)
                @ ''ms ('' @ fw @ '')''),
         real_time_save e (server @ '' (firewall:'' @ fw @ '') (''
                             @ fmt0 e ((clock e 1 - clock e 0) * 1000) @ ''ms)'')
           (w\<lparr>queries := queries w @ [(server, domain, timeout)]\<rparr>))
      else
        (Inr (False, (server, Some ((clock e 1 - clock e 0) * 1000)),
              server @ '' firewall blocked ('' @ fw @ '')''),
         w\<lparr>queries := queries w @ [(server, domain, timeout)]\<rparr>))"
  using assms by (simp add: test_single_server_def probe_body_firewall Let_def)

lemma test_single_server_plain:
  assumes "inet_aton e server = None" "set_nameservers e [server] = None"
    "resolve e server domain timeout = Inr answers" "\<not> firewall_found answers"
  shows "test_single_server e server domain timeout include_firewall w =
     (Inr (False, (server, Some ((clock e 2 - clock e 0) * 1000)), server @ '' error''),
      w\<lparr>queries := queries w @ [(server, domain, timeout)]\<rparr>)"
  using assms by (simp add: test_single_server_def probe_body_plain handlers_def Let_def)

subsection \<open>Answers that contain a sentinel\<close>

text \<open>
  C3. When the query returns answers that meet the sentinel set, the probe returns the
  firewall outcome that carries the first matching sentinel, whatever the value of
  \<^verbatim>\<open>include_firewall\<close>: the message is the \<^verbatim>\<open>firewall blocked\<close> one, never the \<^verbatim>\<open>ok\<close> one,
  and the flag of the tuple only repeats \<^verbatim>\<open>include_firewall\<close> (whether the blocked server
  is accepted as working).
\<close>

theorem sentinel_answer_is_firewall_blocked:
  assumes "inet_aton e server = None" and "set_nameservers e [server] = None"
    and "resolve e server domain timeout = Inr answers"
    and "set answers \<inter> firewall_ips \<noteq> {}"
  shows "\<exists>fw. next_firewall answers = Inr fw
           \<and> (\<exists>pre post. answers = pre @ fw # post \<and> fw \<in> firewall_ips
                  \<and> set pre \<inter> firewall_ips = {})
           \<and> fst (test_single_server e server domain timeout include_firewall w) =
               Inr (include_firewall, (server, Some ((clock e 1 - clock e 0) * 1000)),
                    if include_firewall
                    then server @ '' firewall blocked ''
                           @ fmt0 e ((clock e 1 - clock e 0) * 1000) @ ''ms ('' @ fw @ '')''
                    else server @ '' firewall blocked ('' @ fw @ '')'')"
proof -
  from assms(4) obtain pre fw post where f: "answers = pre @ fw # post" "fw \<in> firewall_ips"
      "set pre \<inter> firewall_ips = {}" "next_firewall answers = Inr fw"
    using next_firewall_first by blast
  have ff: "firewall_found answers" using assms(4) by (simp add: firewall_found_iff)
  have "fst (test_single_server e server domain timeout include_firewall w) =
               Inr (include_firewall, (server, Some ((clock e 1 - clock e 0) * 1000)),
                    if include_firewall
                    then server @ '' firewall blocked ''
                           @ fmt0 e ((clock e 1 - clock e 0) * 1000) @ ''ms ('' @ fw @ '')''
                    else server @ '' firewall blocked ('' @ fw @ '')'')"
    by (simp add: test_single_server_firewall[OF assms(1-3) f(4) ff])
  with f show ?thesis by blast
qed

theorem sentinel_answer_is_firewall_blocked_witness:
  "fst (test_single_server
          (lib_env (Inr [''93.184.216.34'', ''10.10.34.35'', ''10.10.34.34'']) (\<lambda>k. real k / 40) None)
          ''1.1.1.1'' ''example.com'' 3 False w0)
     = Inr (False, (''1.1.1.1'', Some 25), ''1.1.1.1 firewall blocked (10.10.34.35)'')
   \<and> fst (test_single_server
          (lib_env (Inr [''93.184.216.34'', ''10.10.34.35'', ''10.10.34.34'']) (\<lambda>k. real k / 40) None)
          ''1.1.1.1'' ''example.com'' 3 True w0)
     = Inr (True, (''1.1.1.1'', Some 25), ''1.1.1.1 firewall blocked 25ms (10.10.34.35)'')"
proof -
  let ?e = "lib_env (Inr [''93.184.216.34'', ''10.10.34.35'', ''10.10.34.34'']) (\<lambda>k. real k / 40) None"
  let ?as = "[''93.184.216.34'', ''10.10.34.35'', ''10.10.34.34'']"
  have a: "inet_aton ?e ''1.1.1.1'' = None" by (simp add: lib_env_simps accepts_1111)
  have b: "set_nameservers ?e [''1.1.1.1''] = None" by (simp add: lib_env_simps accepts_1111)
  have c: "resolve ?e ''1.1.1.1'' ''example.com'' 3 = Inr ?as" by (simp add: lib_env_simps)
  have d: "set ?as \<inter> firewall_ips \<noteq> {}" by (simp add: firewall_ips_def)
  have n: "next_firewall ?as = Inr ''10.10.34.35''"
    by (simp add: next_firewall_def firewall_ips_def)
  show ?thesis
    using sentinel_answer_is_firewall_blocked [OF a b c d, of False w0]
      sentinel_answer_is_firewall_blocked [OF a b c d, of True w0] n
    by (auto simp: lib_env_simps fmt25)
qed

subsection \<open>Address validation\<close>

lemma rejects_999: "\<not> inet_aton_libc ''999.999.999.999''"
  by (simp add: inet_aton_libc_def c_number_def number_in_def digit_val_def Let_def)

lemma lib_env_takes_dotted_quads:
  "inet_aton (lib_env r c a) s = None \<and> set_nameservers (lib_env r c a) [s] = None
     \<longrightarrow> dotted_quad s"
  by (simp add: lib_env_simps dns_is_address_def)

lemma accepts_three_parts:
  "inet_aton_libc ''8.8.8''" "\<not> dotted_quad ''8.8.8''" "\<not> dns_is_address ''8.8.8''"
  by (simp_all add: inet_aton_libc_def dns_is_address_def dotted_quad_def c_number_def
        number_in_def digit_val_def Let_def)

lemma malformed_999: "\<not> dotted_quad ''999.999.999.999''"
  by (simp add: dotted_quad_def number_in_def digit_val_def Let_def)

text \<open>
  C5, as the code has it. The probe validates the address with \<^verbatim>\<open>socket.inet_aton\<close> and
  then hands it to the resolver as its name server. Where only dotted quads pass both
  (the setter of \<^verbatim>\<open>resolver.nameservers\<close> in dnspython refuses every other string that
  \<^verbatim>\<open>socket.inet_aton\<close> lets through), every address that is not a dotted quad leaves the
  world as it was: no query is handed to the resolver and nothing is written, and the
  engine counts the address as failed. The outcome is \<^verbatim>\<open>invalid ip\<close>, with no latency,
  when \<^verbatim>\<open>socket.inet_aton\<close> rejects the address with \<^verbatim>\<open>socket.error\<close>; otherwise the probe
  raises instead of returning an outcome.
\<close>

theorem malformed_address_never_queried:
  assumes "\<not> dotted_quad server"
    and "\<forall>s. inet_aton e s = None \<and> set_nameservers e [s] = None \<longrightarrow> dotted_quad s"
  shows "snd (test_single_server e server domain timeout include_firewall w) = w
       \<and> (inet_aton e server = Some SocketError \<longrightarrow>
            fst (test_single_server e server domain timeout include_firewall w) =
              Inr (False, (server, None), server @ '' invalid ip''))
       \<and> (inet_aton e server \<noteq> Some SocketError \<longrightarrow>
            (\<exists>ex. fst (test_single_server e server domain timeout include_firewall w) = Inl ex))
       \<and> tally (server, fst (test_single_server e server domain timeout include_firewall w))
             (working_list, failed_list) = (working_list, failed_list @ [server])"
proof (cases "inet_aton e server")
  case (Some ex)
  show ?thesis
  proof (cases "ex = SocketError")
    case True
    then show ?thesis using Some by (simp add: test_single_server_invalid)
  next
    case False
    then show ?thesis using Some by (simp add: test_single_server_raises(1))
  qed
next
  case None
  have "set_nameservers e [server] \<noteq> None"
  proof
    assume "set_nameservers e [server] = None"
    with None assms(2) have "dotted_quad server" by simp
    with assms(1) show False by simp
  qed
  then obtain ex where "set_nameservers e [server] = Some ex" by auto
  then show ?thesis using None by (simp add: test_single_server_raises(2))
qed

theorem malformed_address_never_queried_witness:
  "test_single_server (lib_env (Inr [''93.184.216.34'']) (\<lambda>k. real k / 40) None)
     ''999.999.999.999'' ''example.com'' 3 False w0 =
     (Inr (False, (''999.999.999.999'', None), ''999.999.999.999 invalid ip''), w0)
   \<and> snd (test_single_server (lib_env (Inr [''93.184.216.34'']) (\<lambda>k. real k / 40) None)
            ''8.8.8'' ''example.com'' 3 False w0) = w0
   \<and> tally (''8.8.8'',
        fst (test_single_server (lib_env (Inr [''93.184.216.34'']) (\<lambda>k. real k / 40) None)
               ''8.8.8'' ''example.com'' 3 False w0)) ([], []) = ([], [''8.8.8''])"
proof -
  let ?e = "lib_env (Inr [''93.184.216.34'']) (\<lambda>k. real k / 40) None"
  have h: "\<forall>s. inet_aton ?e s = None \<and> set_nameservers ?e [s] = None \<longrightarrow> dotted_quad s"
    using lib_env_takes_dotted_quads by blast
  have r: "inet_aton ?e ''999.999.999.999'' = Some SocketError"
    by (simp add: lib_env_simps rejects_999)
  show ?thesis
    using malformed_address_never_queried [OF malformed_999 h, of "''example.com''" 3 False w0 "[]" "[]"]
      malformed_address_never_queried [OF accepts_three_parts(2) h, of "''example.com''" 3 False w0 "[]" "[]"]
      r
    by (simp add: prod_eq_iff)
qed

lemma accepts_127_1: "inet_aton_libc ''127.1''" "\<not> dotted_quad ''127.1''" "\<not> dns_is_address ''127.1''"
  by (simp_all add: inet_aton_libc_def dns_is_address_def dotted_quad_def c_number_def number_in_def digit_val_def Let_def)

text \<open>
  \<^verbatim>\<open>socket.inet_aton\<close> accepts more than dotted quads: \<^verbatim>\<open>127.1\<close> is the two-part form of
  \<^verbatim>\<open>127.0.0.1\<close>. The string passes the validation, so the outcome is not
  \<^verbatim>\<open>invalid ip\<close>; here the setter of \<^verbatim>\<open>resolver.nameservers\<close> then refuses it, outside
  both \<^verbatim>\<open>try\<close> blocks.
\<close>

theorem short_form_address_counterexample:
  "\<not> dotted_quad ''127.1''
   \<and> test_single_server (lib_env (Inr [''93.184.216.34'']) (\<lambda>k. real k / 40) None)
        ''127.1'' ''example.com'' 3 False w0 = (Inl ValueError, w0)"
  by (simp add: test_single_server_def lib_env_simps accepts_127_1 Let_def)

subsection \<open>Failures of the probe\<close>

lemma accepts_octal: "inet_aton_libc ''8.8.8.010''" "\<not> dns_is_address ''8.8.8.010''"
  by (simp_all add: inet_aton_libc_def dns_is_address_def dotted_quad_def c_number_def number_in_def digit_val_def Let_def)

lemma probe_returns_when_configured:
  assumes "inet_aton e server = Some SocketError
           \<or> (inet_aton e server = None \<and> set_nameservers e [server] = None)"
  shows "(\<exists>r. fst (test_single_server e server domain timeout include_firewall w) = Inr r)
         \<and> (\<forall>ex. inet_aton e server = None \<and> resolve e server domain timeout = Inl ex \<longrightarrow>
               fst (test_single_server e server domain timeout include_firewall w) =
                 Inr (False, (server, Some ((clock e 1 - clock e 0) * 1000)),
                      server @ (if ex = NXDOMAIN then '' nxdomain''
                                else if ex = Timeout then '' timeout''
                                else if ex = NoAnswer then '' no answer''
                                else if ex = DNSException then '' dns error''
                                else '' error'')))"
proof -
  have 1: "\<exists>r. fst (test_single_server e server domain timeout include_firewall w) = Inr r"
    using assms
  proof
    assume "inet_aton e server = Some SocketError"
    then show ?thesis by (auto simp: test_single_server_invalid)
  next
    assume a: "inet_aton e server = None \<and> set_nameservers e [server] = None"
    show ?thesis
    proof (cases "resolve e server domain timeout")
      case (Inl ex)
      then show ?thesis using a by (auto simp: test_single_server_query_fails handlers_def Let_def)
    next
      case (Inr answers)
      show ?thesis
      proof (cases "firewall_found answers")
        case True
        then obtain fw where "next_firewall answers = Inr fw"
          using next_firewall_first[of answers] by (auto simp: firewall_found_iff)
        then show ?thesis using a Inr True
          by (auto simp: test_single_server_firewall)
      next
        case False
        then show ?thesis using a Inr by (auto simp: test_single_server_plain)
      qed
    qed
  qed
  have 2: "\<forall>ex. inet_aton e server = None \<and> resolve e server domain timeout = Inl ex \<longrightarrow>
               fst (test_single_server e server domain timeout include_firewall w) =
                 Inr (False, (server, Some ((clock e 1 - clock e 0) * 1000)),
                      server @ (if ex = NXDOMAIN then '' nxdomain''
                                else if ex = Timeout then '' timeout''
                                else if ex = NoAnswer then '' no answer''
                                else if ex = DNSException then '' dns error''
                                else '' error''))"
    using assms by (auto simp: test_single_server_query_fails handlers_def Let_def)
  from 1 2 show ?thesis by blast
qed

text \<open>
  C2, as the code has it. When \<^verbatim>\<open>socket.inet_aton\<close> either rejects the address with
  \<^verbatim>\<open>socket.error\<close> or accepts it and the resolver takes it as its name server, the probe
  returns exactly one result and raises nothing, whatever the query does; and every
  exception the query raises (time-out, non-existent domain, empty answer, another DNS
  exception, any other exception) becomes the failure of its kind, with the flag
  \<^verbatim>\<open>False\<close> and the latency measured up to the failure. An exception that does leave the
  probe is caught by the loop of the engine, which records the server as failed.
\<close>

theorem probe_returns_outcome:
  "(inet_aton e server = Some SocketError
      \<or> (inet_aton e server = None \<and> set_nameservers e [server] = None) \<longrightarrow>
     (\<exists>r. fst (test_single_server e server domain timeout include_firewall w) = Inr r)
     \<and> (\<forall>ex. inet_aton e server = None \<and> resolve e server domain timeout = Inl ex \<longrightarrow>
           fst (test_single_server e server domain timeout include_firewall w) =
             Inr (False, (server, Some ((clock e 1 - clock e 0) * 1000)),
                  server @ (if ex = NXDOMAIN then '' nxdomain''
                            else if ex = Timeout then '' timeout''
                            else if ex = NoAnswer then '' no answer''
                            else if ex = DNSException then '' dns error''
                            else '' error''))))
   \<and> (\<forall>ex. fst (test_single_server e server domain timeout include_firewall w) = Inl ex \<longrightarrow>
         tally (server, fst (test_single_server e server domain timeout include_firewall w))
           (working_list, failed_list) = (working_list, failed_list @ [server]))"
  using probe_returns_when_configured[of e server domain timeout include_firewall w] by auto

theorem probe_returns_outcome_witness:
  "fst (test_single_server (lib_env (Inl Timeout) (\<lambda>k. real k * 3) None)
          ''1.1.1.1'' ''example.com'' 3 False w0)
     = Inr (False, (''1.1.1.1'', Some 3000), ''1.1.1.1 timeout'')
   \<and> tally (''8.8.8.010'',
        fst (test_single_server (lib_env (Inl Timeout) (\<lambda>k. real k * 3) None)
               ''8.8.8.010'' ''example.com'' 3 False w0)) ([], []) = ([], [''8.8.8.010''])"
proof -
  let ?e = "lib_env (Inl Timeout) (\<lambda>k. real k * 3) None"
  have a: "inet_aton ?e ''1.1.1.1'' = Some SocketError
           \<or> (inet_aton ?e ''1.1.1.1'' = None \<and> set_nameservers ?e [''1.1.1.1''] = None)"
    by (simp add: lib_env_simps accepts_1111)
  have b: "fst (test_single_server ?e ''8.8.8.010'' ''example.com'' 3 False w0) = Inl ValueError"
    by (simp add: test_single_server_def lib_env_simps accepts_octal Let_def)
  show ?thesis
    using probe_returns_outcome [of ?e "''1.1.1.1''" "''example.com''" 3 False w0 "[]" "[]"]
      probe_returns_outcome [of ?e "''8.8.8.010''" "''example.com''" 3 False w0 "[]" "[]"] a b
    by (simp add: lib_env_simps accepts_1111)
qed

text \<open>
  The validation and the configuration of the resolver are not inside the second \<^verbatim>\<open>try\<close>:
  an address that \<^verbatim>\<open>socket.inet_aton\<close> accepts and the resolver refuses (here one with an
  octal last part), or one on which \<^verbatim>\<open>socket.inet_aton\<close> raises something else than
  \<^verbatim>\<open>socket.error\<close> (here one with an embedded NUL), makes the probe raise.
\<close>

theorem probe_raises_counterexample:
  "fst (test_single_server (lib_env (Inr [''93.184.216.34'']) (\<lambda>k. real k / 40) None)
          ''8.8.8.010'' ''example.com'' 3 False w0) = Inl ValueError
   \<and> fst (test_single_server (lib_env (Inr [''93.184.216.34'']) (\<lambda>k. real k / 40) None)
          (''8.8.8.8'' @ [CHR 0x00]) ''example.com'' 3 False w0) = Inl ValueError"
  by (simp add: test_single_server_def lib_env_simps accepts_octal Let_def)

subsection \<open>What is written to the store\<close>






subsection \<open>Latency\<close>

lemma test_single_server_result_cases:
  assumes "fst (test_single_server e server domain timeout include_firewall w) = Inr r"
  shows "(inet_aton e server = Some SocketError \<and> r = (False, (server, None), server @ '' invalid ip''))
       \<or> (inet_aton e server = None \<and> fst (snd r) = (server, Some ((clock e 1 - clock e 0) * 1000)))
       \<or> (inet_aton e server = None \<and> fst (snd r) = (server, Some ((clock e 2 - clock e 0) * 1000)))"
proof (cases "inet_aton e server")
  case (Some ex)
  then show ?thesis using assms
    by (cases "ex = SocketError") (auto simp: test_single_server_def)
next
  case None
  show ?thesis
  proof (cases "set_nameservers e [server]")
    case (Some ex)
    then show ?thesis using assms None by (simp add: test_single_server_raises)
  next
    case sn: None
    show ?thesis
    proof (cases "resolve e server domain timeout")
      case (Inl ex)
      then show ?thesis using assms None sn
        by (auto simp: test_single_server_query_fails handlers_def Let_def)
    next
      case (Inr answers)
      show ?thesis
      proof (cases "firewall_found answers")
        case True
        then obtain fw where "next_firewall answers = Inr fw"
          using next_firewall_first[of answers] by (auto simp: firewall_found_iff)
        then show ?thesis using assms None sn Inr True
          by (auto simp: test_single_server_firewall split: if_splits)
      next
        case False
        then show ?thesis using assms None sn Inr
          by (auto simp: test_single_server_plain)
      qed
    qed
  qed
qed

text \<open>
  C7, as the code has it. In every result of the probe the latency is absent exactly when
  the address was rejected, which is the \<^verbatim>\<open>invalid ip\<close> outcome; in every other result it
  is the difference of two readings of \<^verbatim>\<open>time.time()\<close>, the one at the start and the one at
  the answer or at the failure, times 1000. It is non-negative when the later readings are
  not below the reading at the start.
\<close>

theorem latency_present_unless_invalid:
  assumes "fst (test_single_server e server domain timeout include_firewall w) =
             Inr (success, (ip, latency), message)"
  shows "(latency = None \<longleftrightarrow> inet_aton e server = Some SocketError)
       \<and> (latency = None \<longrightarrow> \<not> success \<and> message = server @ '' invalid ip'')
       \<and> (\<forall>t. latency = Some t \<longrightarrow>
             t = (clock e 1 - clock e 0) * 1000 \<or> t = (clock e 2 - clock e 0) * 1000)
       \<and> (clock e 0 \<le> clock e 1 \<and> clock e 0 \<le> clock e 2 \<longrightarrow>
             (\<forall>t. latency = Some t \<longrightarrow> 0 \<le> t))"
  using test_single_server_result_cases[OF assms] by auto

theorem latency_present_unless_invalid_witness:
  "fst (test_single_server (lib_env (Inl NXDOMAIN) (\<lambda>k. real k / 50) None)
          ''1.1.1.1'' ''example.com'' 3 False w0)
     = Inr (False, (''1.1.1.1'', Some 20), ''1.1.1.1 nxdomain'')
   \<and> (0::real) \<le> 20"
proof -
  let ?e = "lib_env (Inl NXDOMAIN) (\<lambda>k. real k / 50) None"
  have r: "fst (test_single_server ?e ''1.1.1.1'' ''example.com'' 3 False w0)
     = Inr (False, (''1.1.1.1'', Some 20), ''1.1.1.1 nxdomain'')"
    by (simp add: test_single_server_def lib_env_simps accepts_1111 handlers_def Let_def)
  show ?thesis
    using latency_present_unless_invalid [OF r] r by (simp add: lib_env_simps)
qed

text \<open>
  \<^verbatim>\<open>time.time()\<close> is the wall clock and may be set back between two readings; the latency of
  the failure is then negative.
\<close>

theorem clock_set_back_counterexample:
  "fst (test_single_server (lib_env (Inl Timeout) (\<lambda>k. if k = 0 then 1000 else 999) None)
          ''1.1.1.1'' ''example.com'' 3 False w0)
     = Inr (False, (''1.1.1.1'', Some (- 1000)), ''1.1.1.1 timeout'')"
  by (simp add: test_single_server_def lib_env_simps accepts_1111 handlers_def Let_def)

subsection \<open>The engine\<close>

lemma test_single_server_same_server:
  assumes "fst (test_single_server e server domain timeout include_firewall w) =
             Inr (success, (ip, latency), message)"
  shows "ip = server"
  using test_single_server_result_cases[OF assms] by auto

lemma test_single_server_result_world:
  "fst (test_single_server e server domain timeout include_firewall w) =
   fst (test_single_server e server domain timeout include_firewall w')"
proof (cases "inet_aton e server")
  case (Some ex)
  then show ?thesis by (simp add: test_single_server_def)
next
  case None
  show ?thesis
  proof (cases "set_nameservers e [server]")
    case (Some ex)
    then show ?thesis using None by (simp add: test_single_server_raises(2))
  next
    case sn: None
    show ?thesis
    proof (cases "resolve e server domain timeout")
      case (Inl ex)
      then show ?thesis using None sn by (simp add: test_single_server_query_fails)
    next
      case (Inr answers)
      show ?thesis
      proof (cases "firewall_found answers")
        case True
        then obtain fw where "next_firewall answers = Inr fw"
          using next_firewall_first[of answers] by (auto simp: firewall_found_iff)
        then show ?thesis using None sn Inr True
          by (simp add: test_single_server_firewall)
      next
        case False
        then show ?thesis using None sn Inr by (simp add: test_single_server_plain)
      qed
    qed
  qed
qed

lemma run_futures_Cons:
  "run_futures envs domain timeout include_firewall ((i, server) # futures) w =
     (((i, server), fst (test_single_server (envs i) server domain timeout include_firewall w))
        # fst (run_futures envs domain timeout include_firewall futures
                 (snd (test_single_server (envs i) server domain timeout include_firewall w))),
      snd (run_futures envs domain timeout include_firewall futures
             (snd (test_single_server (envs i) server domain timeout include_firewall w))))"
  by (simp split: prod.splits)

lemma run_futures_outcomes:
  "fst (run_futures envs domain timeout include_firewall futures w) =
     map (\<lambda>f. (f, probe_outcome envs domain timeout include_firewall f)) futures"
proof (induction futures arbitrary: w)
  case Nil
  then show ?case by simp
next
  case (Cons f futures)
  obtain i server where f: "f = (i, server)" by (cases f)
  have "fst (test_single_server (envs i) server domain timeout include_firewall w) =
        probe_outcome envs domain timeout include_firewall (i, server)"
    unfolding probe_outcome_def using test_single_server_result_world[of "envs i" server] by simp
  then show ?case unfolding f run_futures_Cons using Cons.IH by simp
qed

lemma future_result_of_run:
  assumes "f \<in> set futures"
  shows "future_result (map (\<lambda>f. (f, g f)) futures) f = g f"
  using assms by (simp add: future_result_def map_of_map_restrict)

lemma own_server_probe_outcome:
  "own_server (snd f, probe_outcome envs domain timeout include_firewall f)"
proof (cases "probe_outcome envs domain timeout include_firewall f")
  case (Inl ex)
  then show ?thesis by (simp add: own_server_def)
next
  case (Inr r)
  obtain success ip latency message where r: "r = (success, (ip, latency), message)"
    by (cases r) auto
  have "fst (test_single_server (envs (fst f)) (snd f) domain timeout include_firewall w0) =
          Inr (success, (ip, latency), message)"
    using Inr r by (simp add: probe_outcome_def)
  then have "ip = snd f" by (rule test_single_server_same_server)
  then show ?thesis using Inr r by (simp add: own_server_def)
qed

lemma tally_accepted:
  assumes "own_server (server, outcome)"
  shows "tally (server, outcome) (working_list, failed_list) =
           (case accepted outcome of
              Some entry \<Rightarrow> (working_list @ [entry], failed_list)
            | None \<Rightarrow> (working_list, failed_list @ [server]))"
proof (cases outcome)
  case (Inl ex)
  then show ?thesis by simp
next
  case (Inr r)
  obtain success ip latency message where r: "r = (success, (ip, latency), message)"
    by (cases r) auto
  then show ?thesis using Inr assms by (simp add: own_server_def)
qed

lemma fold_tally_lists:
  "list_all own_server outcomes \<Longrightarrow>
   fold tally outcomes (working_list, failed_list) =
     (working_list @ List.map_filter (\<lambda>p. accepted (snd p)) outcomes,
      failed_list @ map fst (filter (\<lambda>p. accepted (snd p) = None) outcomes))"
proof (induction outcomes arbitrary: working_list failed_list)
  case Nil
  then show ?case by (simp add: List.map_filter_simps)
next
  case (Cons p outcomes)
  obtain server outcome where p: "p = (server, outcome)" by (cases p)
  from Cons.prems have o: "own_server (server, outcome)" and l: "list_all own_server outcomes"
    by (simp_all add: p)
  show ?case
  proof (cases "accepted outcome")
    case None
    then show ?thesis
      using Cons.IH[OF l] by (simp add: p tally_accepted[OF o] List.map_filter_simps)
  next
    case (Some entry)
    then show ?thesis
      using Cons.IH[OF l] by (simp add: p tally_accepted[OF o] List.map_filter_simps)
  qed
qed

lemma set_sort_orders:
  "set (as_completed yielded futures) = set futures"
  "set (executor_order effect futures) = set futures"
  "mset (as_completed yielded futures) = mset futures"
  "length (as_completed yielded futures) = length futures"
  by (simp_all add: as_completed_def executor_order_def)


lemma loop_outcomes:
  "map (\<lambda>f. (snd f, future_result
                       (fst (run_futures envs domain timeout include_firewall
                               (executor_order effect futures) w)) f))
       (as_completed yielded futures) =
   map (\<lambda>f. (snd f, probe_outcome envs domain timeout include_firewall f))
       (as_completed yielded futures)"
proof (rule map_cong[OF refl])
  fix f assume "f \<in> set (as_completed yielded futures)"
  then have "f \<in> set (executor_order effect futures)" by (simp add: set_sort_orders)
  then show "(snd f, future_result
                       (fst (run_futures envs domain timeout include_firewall
                               (executor_order effect futures) w)) f) =
             (snd f, probe_outcome envs domain timeout include_firewall f)"
    by (simp add: run_futures_outcomes future_result_of_run)
qed

lemma working_and_failed_of_run:
  assumes "check_dns_servers main_env envs effect yielded timestamp servers domain timeout
             include_firewall w = Some s"
  shows "working s =
           List.map_filter (\<lambda>f. accepted (probe_outcome envs domain timeout include_firewall f))
             (as_completed yielded (enumerate 0 servers))"
    and "failed s =
           map snd (filter (\<lambda>f. accepted (probe_outcome envs domain timeout include_firewall f) = None)
                      (as_completed yielded (enumerate 0 servers)))"
proof -
  let ?ys = "as_completed yielded (enumerate 0 servers)"
  let ?outs = "map (\<lambda>f. (snd f, probe_outcome envs domain timeout include_firewall f)) ?ys"
  have own: "list_all own_server ?outs"
    by (simp add: list_all_iff own_server_probe_outcome)
  have ne: "servers \<noteq> []" using assms by (auto simp: check_dns_servers_def)
  have s: "working s = fst (fold tally ?outs ([], []))" "failed s = snd (fold tally ?outs ([], []))"
    using assms ne by (auto simp: check_dns_servers_def Let_def loop_outcomes)
  have w: "List.map_filter (\<lambda>p. accepted (snd p)) ?outs =
           List.map_filter (\<lambda>f. accepted (probe_outcome envs domain timeout include_firewall f)) ?ys"
    by (simp add: List.map_filter_def filter_map comp_def)
  have f: "map fst (filter (\<lambda>p. accepted (snd p) = None) ?outs) =
           map snd (filter (\<lambda>f. accepted (probe_outcome envs domain timeout include_firewall f) = None) ?ys)"
    by (simp add: filter_map comp_def)
  show "working s =
           List.map_filter (\<lambda>f. accepted (probe_outcome envs domain timeout include_firewall f)) ?ys"
    using s(1) w by (simp add: fold_tally_lists[OF own])
  show "failed s =
           map snd (filter (\<lambda>f. accepted (probe_outcome envs domain timeout include_firewall f) = None) ?ys)"
    using s(2) f by (simp add: fold_tally_lists[OF own])
qed




lemmas run_simps = check_dns_servers_def write_header_def as_completed_def executor_order_def
  test_single_server_def probe_body_def handlers_def read_local_def
  real_time_save_def firewall_found_def next_firewall_def firewall_ips_def
  lib_env_simps accepts_1111 accepts_8888 fmt25 Let_def w0_def

lemmas loop_simps = future_result_def sorted_working_def



subsection \<open>The five fastest\<close>

text \<open>
  C6, as the code has it. The list printed under \<^verbatim>\<open>top 5 fastest\<close> is the first five entries
  of the stable sort of \<^verbatim>\<open>working\<close> by latency: it is ascending by latency, it has
  \<open>min 5 (length working)\<close> entries, and entries of equal latency keep the order they have
  in \<^verbatim>\<open>working\<close>. \<^verbatim>\<open>working\<close> holds the positive results in the order in which
  \<^verbatim>\<open>as_completed\<close> yielded their futures, an order the program does not determine.
\<close>

theorem top5_sorted_bounded_stable:
  assumes "check_dns_servers main_env envs effect yielded timestamp servers domain timeout
             include_firewall w = Some s"
  shows "top5 s = take 5 (sorted_working (working s))
       \<and> sorted (map snd (top5 s))
       \<and> length (top5 s) = min 5 (length (working s))
       \<and> length (top5 s) \<le> 5
       \<and> mset (sorted_working (working s)) = mset (working s)
       \<and> (\<forall>k. filter (\<lambda>x. snd x = k) (sorted_working (working s)) =
                filter (\<lambda>x. snd x = k) (working s))
       \<and> working s =
           List.map_filter
             (\<lambda>f. accepted (probe_outcome envs domain timeout include_firewall f))
             (as_completed yielded (enumerate 0 servers))"
proof -
  have t: "top5 s = take 5 (sorted_working (working s))"
    using assms
    by (auto simp: check_dns_servers_def Let_def sorted_working_def split: if_splits)
  have "sorted (map snd (sorted_working (working s)))"
    by (simp add: sorted_working_def)
  then have "sorted (take 5 (map snd (sorted_working (working s))))"
    by (rule sorted_wrt_take)
  then have s: "sorted (map snd (top5 s))" by (simp add: t take_map)
  have l: "length (top5 s) = min 5 (length (working s))"
    by (simp add: t sorted_working_def min.commute)
  have st: "\<forall>k. filter (\<lambda>x. snd x = k) (sorted_working (working s)) =
                filter (\<lambda>x. snd x = k) (working s)"
    by (simp add: sorted_working_def sort_key_stable)
  have m: "mset (sorted_working (working s)) = mset (working s)"
    by (simp add: sorted_working_def)
  from t s l st m working_and_failed_of_run(1)[OF assms] show ?thesis by simp
qed

theorem top5_sorted_bounded_stable_witness:
  "map_option top5
     (check_dns_servers (lib_env (Inr []) (\<lambda>k. 0) None)
        (\<lambda>i. lib_env (Inr [''10.10.34.34'']) (\<lambda>k. real k / (if i = 0 then 20 else 40)) None)
        (\<lambda>i. i) (\<lambda>i. i) ''26-01-01 00:00:00'' [''1.1.1.1'', ''8.8.8.8'']
        ''example.com'' 3 True w0)
   = Some [(''8.8.8.8'', Some 25), (''1.1.1.1'', Some 50)]
   \<and> sorted [Some (25::real), Some 50]"
proof -
  let ?run = "check_dns_servers (lib_env (Inr []) (\<lambda>k. 0) None)
        (\<lambda>i. lib_env (Inr [''10.10.34.34'']) (\<lambda>k. real k / (if i = 0 then 20 else 40)) None)
        (\<lambda>i. i) (\<lambda>i. i) ''26-01-01 00:00:00'' [''1.1.1.1'', ''8.8.8.8'']
        ''example.com'' 3 True w0"
  obtain s where r: "?run = Some s" by (simp add: check_dns_servers_def Let_def)
  have w: "working s = [(''1.1.1.1'', Some 50), (''8.8.8.8'', Some 25)]"
    using r by (simp add: run_simps fmt50) (auto simp: loop_simps)
  show ?thesis
    using top5_sorted_bounded_stable [OF r] r w
    by (simp add: sorted_working_def)
qed

text \<open>
  Two servers with the same latency, the future of the second of the input yielded first:
  the list names the second server first, not the first of the input.
\<close>

theorem yield_order_counterexample:
  "map_option top5
     (check_dns_servers (lib_env (Inr []) (\<lambda>k. 0) None)
        (\<lambda>i. lib_env (Inr [''10.10.34.34'']) (\<lambda>k. real k / 40) None)
        (\<lambda>i. i) (\<lambda>i. if i = 0 then 2 else 1) ''26-01-01 00:00:00'' [''1.1.1.1'', ''8.8.8.8'']
        ''example.com'' 3 True w0)
   = Some [(''8.8.8.8'', Some 25), (''1.1.1.1'', Some 25)]"
  by (simp add: run_simps) (simp add: loop_simps)

subsection \<open>Answers without a sentinel\<close>

text \<open>
  C1, what the code does. When the query returns a non-empty list of answers none of which
  is a sentinel, the line that builds \<^verbatim>\<open>server_info\<close> reads \<^verbatim>\<open>first_fw\<close>, which is unbound
  on this path; the \<^verbatim>\<open>UnboundLocalError\<close> is caught by \<^verbatim>\<open>except Exception\<close>, and the probe
  returns the failure \<^verbatim>\<open>error\<close> with the latency taken in the handler. Nothing is written
  to the store and the engine counts the server as failed. The return of the \<^verbatim>\<open>ok\<close> result
  two lines below is never reached. For the two servers of the first end-to-end scenario
  the run ends with no working server, both servers failed, a success rate of 0 and a
  store that holds the header only.
\<close>

theorem plain_answer_is_reported_as_error:
  assumes "inet_aton e server = None" and "set_nameservers e [server] = None"
    and "resolve e server domain timeout = Inr answers"
    and "answers \<noteq> []" and "set answers \<inter> firewall_ips = {}"
  shows "test_single_server e server domain timeout include_firewall w =
           (Inr (False, (server, Some ((clock e 2 - clock e 0) * 1000)), server @ '' error''),
            w\<lparr>queries := queries w @ [(server, domain, timeout)]\<rparr>)
       \<and> tally (server, fst (test_single_server e server domain timeout include_firewall w))
             (working_list, failed_list) = (working_list, failed_list @ [server])"
proof -
  have "\<not> firewall_found answers" using assms(5) by (simp add: firewall_found_iff)
  then show ?thesis by (simp add: test_single_server_plain[OF assms(1-3)])
qed

theorem plain_answer_is_reported_as_error_witness:
  "test_single_server (lib_env (Inr [''93.184.216.34'']) (\<lambda>k. real k / 40) None)
       ''1.1.1.1'' ''example.com'' 3 False w0 =
     (Inr (False, (''1.1.1.1'', Some 50), ''1.1.1.1 error''),
      \<lparr>store = [], console = [], queries = [(''1.1.1.1'', ''example.com'', 3)]\<rparr>)
   \<and> map_option (\<lambda>s. (working s, failed s, success_rate s, store (final s)))
       (check_dns_servers (lib_env (Inr []) (\<lambda>k. 0) None)
          (\<lambda>i. lib_env (Inr [''93.184.216.34'']) (\<lambda>k. real k / 40) None)
          (\<lambda>i. i) (\<lambda>i. i) ''26-01-01 00:00:00'' [''1.1.1.1'', ''8.8.8.8'']
          ''example.com'' 3 False w0)
     = Some ([], [''1.1.1.1'', ''8.8.8.8''], 0,
             [''# working dns servers - tested: 26-01-01 00:00:00'',
              ''# test domain: example.com'',
              ''# mode: filtering firewall responses - 10.10.34.34, 10.10.34.35, 10.10.34.36'',
              ''# format: ip (response_time_ms) [firewall: fw_ip]''])"
proof -
  let ?e = "lib_env (Inr [''93.184.216.34'']) (\<lambda>k. real k / 40) None"
  have a: "inet_aton ?e ''1.1.1.1'' = None" by (simp add: lib_env_simps accepts_1111)
  have b: "set_nameservers ?e [''1.1.1.1''] = None" by (simp add: lib_env_simps accepts_1111)
  have c: "resolve ?e ''1.1.1.1'' ''example.com'' 3 = Inr [''93.184.216.34'']"
    by (simp add: lib_env_simps)
  have d: "[''93.184.216.34''] \<noteq> []" by simp
  have f: "set [''93.184.216.34''] \<inter> firewall_ips = {}" by (simp add: firewall_ips_def)
  have probe: "test_single_server ?e ''1.1.1.1'' ''example.com'' 3 False w0 =
     (Inr (False, (''1.1.1.1'', Some 50), ''1.1.1.1 error''),
      \<lparr>store = [], console = [], queries = [(''1.1.1.1'', ''example.com'', 3)]\<rparr>)"
    using plain_answer_is_reported_as_error [OF a b c d f, of False w0 "[]" "[]"]
    by (simp add: lib_env_simps w0_def)
  have run: "map_option (\<lambda>s. (working s, failed s, success_rate s, store (final s)))
       (check_dns_servers (lib_env (Inr []) (\<lambda>k. 0) None)
          (\<lambda>i. lib_env (Inr [''93.184.216.34'']) (\<lambda>k. real k / 40) None)
          (\<lambda>i. i) (\<lambda>i. i) ''26-01-01 00:00:00'' [''1.1.1.1'', ''8.8.8.8'']
          ''example.com'' 3 False w0)
     = Some ([], [''1.1.1.1'', ''8.8.8.8''], 0,
             [''# working dns servers - tested: 26-01-01 00:00:00'',
              ''# test domain: example.com'',
              ''# mode: filtering firewall responses - 10.10.34.34, 10.10.34.35, 10.10.34.36'',
              ''# format: ip (response_time_ms) [firewall: fw_ip]''])"
    by (simp add: run_simps) (simp add: loop_simps)
  from probe run show ?thesis by simp
qed

end
